theory Spec2Isabelle
  imports Main
begin

section \<open>Data model of the upload form\<close>

text \<open>
  The browser's \<^verbatim>\<open>File\<close> object. The component reads only its \<^verbatim>\<open>name\<close>; the
  rest of the object travels to the upload service untouched and is kept as
  the opaque field \<open>contents\<close>.
\<close>

record File =
  name :: string
  contents :: string

text \<open>
  Modelled from the spec: the enumeration \<^verbatim>\<open>Model\<close> is declared in
  \<^verbatim>\<open>models/upload.model\<close>, which is not among the sources. The component uses
  its members \<^verbatim>\<open>Model.Fast\<close> and \<^verbatim>\<open>Model.HighQuality\<close>; the spec says the
  enumeration has exactly these two values.
\<close>

datatype Model = Fast | HighQuality

text \<open>
  The payload \<^verbatim>\<open>UploadForm\<close>, with the two fields of the object literal built
  in \<^verbatim>\<open>handleRun\<close>.
\<close>

record UploadForm =
  "file" :: File
  model :: Model

text \<open>
  Modelled from the spec: the type \<^verbatim>\<open>TaskResponse\<close> of the upload service's
  answer is declared outside the sources. The component reads only its field
  \<^verbatim>\<open>task_id\<close>; the spec treats the rest as opaque.
\<close>

record TaskResponse =
  task_id :: string

text \<open>
  The five \<^verbatim>\<open>useState\<close> cells of \<^verbatim>\<open>UploadMain\<close>, with their initial values in
  \<open>initial\<close>. A cell of type \<^verbatim>\<open>T | null\<close> is an option.
\<close>

record UploadMain =
  "file" :: "File option"
  fileName :: string
  model :: Model
  isLoading :: bool
  error :: "string option"

definition initial :: UploadMain where
  "initial = \<lparr>file = None, fileName = '''', model = Fast, isLoading = False, error = None\<rparr>"

text \<open>The setters returned by \<^verbatim>\<open>useState\<close>: each replaces one cell.\<close>

definition setFile :: "File option \<Rightarrow> UploadMain \<Rightarrow> UploadMain" where
  "setFile v s = s\<lparr>file := v\<rparr>"

definition setFileName :: "string \<Rightarrow> UploadMain \<Rightarrow> UploadMain" where
  "setFileName v s = s\<lparr>fileName := v\<rparr>"

definition setModel :: "Model \<Rightarrow> UploadMain \<Rightarrow> UploadMain" where
  "setModel v s = s\<lparr>model := v\<rparr>"

definition setIsLoading :: "bool \<Rightarrow> UploadMain \<Rightarrow> UploadMain" where
  "setIsLoading v s = s\<lparr>isLoading := v\<rparr>"

definition setError :: "string option \<Rightarrow> UploadMain \<Rightarrow> UploadMain" where
  "setError v s = s\<lparr>error := v\<rparr>"

section \<open>Event handlers\<close>

definition handleFileUpload :: "File \<Rightarrow> UploadMain \<Rightarrow> UploadMain" where
  "handleFileUpload uploadedFile s = setFileName (name uploadedFile) (setFile (Some uploadedFile) s)"

definition handleFileRemove :: "UploadMain \<Rightarrow> UploadMain" where
  "handleFileRemove s = setFileName '''' (setFile None s)"

definition handleModelToggle :: "UploadMain \<Rightarrow> UploadMain" where
  "handleModelToggle s = setModel (if model s = Fast then HighQuality else Fast) s"


subsection \<open>The submission handler\<close>

text \<open>
  What \<^verbatim>\<open>handleRun\<close> does to the world outside the component's cells: console
  output, the call of the upload service, and navigation. A console call
  keeps its arguments in order.
\<close>

datatype log_arg = Str string | Payload UploadForm | Response TaskResponse | Thrown string

datatype effect =
    Console_error "log_arg list"
  | Console_log "log_arg list"
  | UploadFileStep UploadForm
  | Navigate string

text \<open>
  How the promise returned by \<^verbatim>\<open>uploadFileStep\<close> settles: it resolves with a
  task response or rejects with some thrown value, kept as an opaque string.
  The service itself is external.
\<close>

datatype outcome = Resolved TaskResponse | Rejected string

text \<open>
  \<^verbatim>\<open>handleRun\<close> is an async function with one \<^verbatim>\<open>await\<close>. \<open>handleRun_call\<close> is
  its body up to the \<^verbatim>\<open>await\<close>: the guard on the file, the two setters, the
  payload, the log line and the call of the service. Its third result is the
  payload of the call now awaited, or \<open>None\<close> when the guard returned early.
\<close>

definition handleRun_call :: "UploadMain \<Rightarrow> UploadMain \<times> effect list \<times> UploadForm option" where
  "handleRun_call s =
     (case file s of
        None \<Rightarrow> (s, [Console_error [Str ''No file uploaded'']], None)
      | Some f \<Rightarrow>
          (let s1 = setIsLoading True s;
               s2 = setError None s1;
               payload = \<lparr>UploadForm.file = f, model = model s\<rparr>
           in (s2, [Console_log [Str ''Component Payload:'', Payload payload],
                    UploadFileStep payload], Some payload)))"

text \<open>
  \<open>handleRun_resume\<close> is the rest of the body, run when the awaited promise
  settles: the remainder of the \<^verbatim>\<open>try\<close> block when it resolved, the \<^verbatim>\<open>catch\<close>
  block when it rejected, and the \<^verbatim>\<open>finally\<close> block after either. The setters
  act on the cells as they are when the promise settles.
\<close>

definition handleRun_resume :: "outcome \<Rightarrow> UploadMain \<Rightarrow> UploadMain \<times> effect list" where
  "handleRun_resume oc s =
     (case oc of
        Resolved taskResponse \<Rightarrow>
          (setIsLoading False s,
           [Console_log [Str ''Task Response:'', Response taskResponse],
            Navigate (''/status?taskId='' @ task_id taskResponse)])
      | Rejected e \<Rightarrow>
          (setIsLoading False (setError (Some ''Failed to upload file. Please try again later.'') s),
           [Console_error [Str ''Error uploading file:'', Thrown e]]))"

text \<open>
  The whole of \<^verbatim>\<open>handleRun\<close> when nothing else happens while the call is
  awaited. The service is a parameter: it maps the payload to the way the
  promise settles.
\<close>

definition handleRun :: "(UploadForm \<Rightarrow> outcome) \<Rightarrow> UploadMain \<Rightarrow> UploadMain \<times> effect list" where
  "handleRun uploadFileStep s =
     (case handleRun_call s of
        (s1, es1, None) \<Rightarrow> (s1, es1)
      | (s1, es1, Some payload) \<Rightarrow>
          (case handleRun_resume (uploadFileStep payload) s1 of
             (s2, es2) \<Rightarrow> (s2, es1 @ es2)))"

definition navigations :: "effect list \<Rightarrow> string list" where
  "navigations es = concat (map (\<lambda>e. case e of Navigate t \<Rightarrow> [t] | _ \<Rightarrow> []) es)"

definition uploads :: "effect list \<Rightarrow> UploadForm list" where
  "uploads es = concat (map (\<lambda>e. case e of UploadFileStep p \<Rightarrow> [p] | _ \<Rightarrow> []) es)"

section \<open>Rendered elements\<close>

text \<open>
  A rendered JSX tree: text, or an element with its tag, its props in the
  order written, and its children. A prop is a string, a boolean, a style
  object or one of the handlers.
\<close>

datatype handler =
    HandleFileUpload | HandleFileRemove | HandleModelToggle | HandleRun
  | SetBackgroundColor string

datatype prop_value = PStr string | PBool bool | PStyle "(string \<times> string) list" | PHandler handler

datatype jsx = Text string | Element string "(string \<times> prop_value) list" "jsx list"

fun elements :: "string \<Rightarrow> jsx \<Rightarrow> jsx list" where
  "elements t (Text _) = []"
| "elements t (Element tag ps cs) =
     (if tag = t then [Element tag ps cs] else []) @ concat (map (elements t) cs)"

fun text_of :: "jsx \<Rightarrow> string" where
  "text_of (Text t) = t"
| "text_of (Element _ _ cs) = concat (map text_of cs)"

fun props :: "jsx \<Rightarrow> (string \<times> prop_value) list" where
  "props (Text _) = []"
| "props (Element _ ps _) = ps"

fun children :: "jsx \<Rightarrow> jsx list" where
  "children (Text _) = []"
| "children (Element _ _ cs) = cs"

definition prop_named :: "string \<Rightarrow> jsx \<Rightarrow> prop_value option" where
  "prop_named p e = map_of (props e) p"

fun all_props :: "jsx \<Rightarrow> (string \<times> prop_value) list" where
  "all_props (Text _) = []"
| "all_props (Element _ ps cs) = ps @ concat (map all_props cs)"

definition wired :: "string \<Rightarrow> handler \<Rightarrow> jsx \<Rightarrow> bool" where
  "wired p h v = ((p, PHandler h) \<in> set (all_props v))"

subsection \<open>The view of the upload form\<close>

definition error_view :: "string \<Rightarrow> jsx" where
  "error_view msg =
     Element ''div''
       [(''style'', PStyle [(''display'', ''flex''), (''justifyContent'', ''center''),
          (''alignItems'', ''center''), (''height'', ''100%''), (''width'', ''100%'')])]
       [Element ''Link'' [(''to'', PStr ''/''), (''style'', PStyle [(''textDecoration'', ''none'')])]
          [Element ''div''
             [(''style'', PStyle [(''color'', ''var(--red-9)''), (''padding'', ''8px 12px''),
                (''border'', ''2px solid var(--red-12)''), (''borderRadius'', ''4px''),
                (''backgroundColor'', ''var(--red-7)''), (''cursor'', ''pointer''),
                (''transition'', ''background-color 0.2s ease'')]),
              (''onMouseEnter'', PHandler (SetBackgroundColor ''var(--red-8)'')),
              (''onMouseLeave'', PHandler (SetBackgroundColor ''var(--red-7)''))]
             [Text msg]]]"

definition form_view :: "UploadMain \<Rightarrow> jsx" where
  "form_view s =
     Element ''Flex'' [(''direction'', PStr ''column''), (''width'', PStr ''100%'')]
       [Element ''Upload''
          [(''onFileUpload'', PHandler HandleFileUpload),
           (''onFileRemove'', PHandler HandleFileRemove),
           (''isUploaded'', PBool (file s \<noteq> None)),
           (''fileName'', PStr (fileName s))] [],
        Element ''Flex''
          [(''direction'', PStr ''row''), (''height'', PStr ''64px''), (''width'', PStr ''100%''),
           (''mt'', PStr ''40px''), (''className'', PStr ''toggle-container''),
           (''onClick'', PHandler HandleModelToggle)]
          [Element ''Flex''
             [(''direction'', PStr ''column''), (''height'', PStr ''100%''),
              (''justify'', PStr ''center''),
              (''className'', PStr (if model s = Fast then ''toggle-active'' else ''toggle'')),
              (''style'', PStyle [(''borderTopLeftRadius'', ''4px''),
                 (''borderBottomLeftRadius'', ''4px'')])]
             [Element ''Text'' [(''size'', PStr ''4''), (''weight'', PStr ''medium'')]
                [Text ''Fast'']],
           Element ''Flex''
             [(''direction'', PStr ''column''), (''height'', PStr ''100%''),
              (''justify'', PStr ''center''),
              (''className'', PStr (if model s = HighQuality then ''toggle-active'' else ''toggle'')),
              (''style'', PStyle [(''borderTopRightRadius'', ''4px''),
                 (''borderBottomRightRadius'', ''4px'')])]
             [Element ''Text'' [(''size'', PStr ''4''), (''weight'', PStr ''medium'')]
                [Text ''High Quality'']]],
        Element ''Flex'' [(''direction'', PStr ''row''), (''width'', PStr ''100%''),
           (''mt'', PStr ''32px'')]
          [Element ''BetterButton''
             [(''padding'', PStr ''16px 64px''),
              (''onClick'', PHandler HandleRun),
              (''active'', PBool (file s \<noteq> None \<and> \<not> isLoading s))]
             [Element ''Text'' [(''size'', PStr ''4''), (''weight'', PStr ''medium'')]
                [Text (if isLoading s then ''Uploading...'' else ''Run'')]]]]"

text \<open>
  The test \<^verbatim>\<open>if (error)\<close> is JavaScript truthiness on \<^verbatim>\<open>string | null\<close>:
  \<^verbatim>\<open>null\<close> and the empty string are falsy, every other string is truthy.
\<close>

definition render :: "UploadMain \<Rightarrow> jsx" where
  "render s =
     (case error s of
        None \<Rightarrow> form_view s
      | Some msg \<Rightarrow> if msg = [] then form_view s else error_view msg)"

subsection \<open>The running component\<close>

text \<open>
  A mounted \<^verbatim>\<open>UploadMain\<close>: its cells, the payloads of the calls of
  \<^verbatim>\<open>uploadFileStep\<close> whose promises have not settled yet, and the effects so
  far.
\<close>

record component =
  cells :: UploadMain
  awaiting :: "UploadForm list"
  effects :: "effect list"

definition mount :: component where
  "mount = \<lparr>cells = initial, awaiting = [], effects = []\<rparr>"

text \<open>Calling a handler that takes no argument on the running component.\<close>

fun invoke :: "handler \<Rightarrow> component \<Rightarrow> component" where
  "invoke HandleFileRemove c = c\<lparr>cells := handleFileRemove (cells c)\<rparr>"
| "invoke HandleModelToggle c = c\<lparr>cells := handleModelToggle (cells c)\<rparr>"
| "invoke HandleRun c =
     (case handleRun_call (cells c) of
        (s1, es, None) \<Rightarrow> c\<lparr>cells := s1, effects := effects c @ es\<rparr>
      | (s1, es, Some payload) \<Rightarrow>
          c\<lparr>cells := s1, awaiting := awaiting c @ [payload], effects := effects c @ es\<rparr>)"
| "invoke _ c = c"

text \<open>
  Modelled from the spec: the component \<^verbatim>\<open>BetterButton\<close> is imported from
  \<^verbatim>\<open>../BetterButton/BetterButton\<close>, which is not among the sources. The spec
  calls it the submit control, enabled exactly when its \<^verbatim>\<open>active\<close> prop is true
  and disabled otherwise; a click on the disabled control starts nothing, a
  click on the enabled one calls its \<^verbatim>\<open>onClick\<close> prop.
\<close>

definition BetterButton_click :: "jsx \<Rightarrow> component \<Rightarrow> component" where
  "BetterButton_click b c =
     (if prop_named ''active'' b = Some (PBool True)
      then (case prop_named ''onClick'' b of Some (PHandler h) \<Rightarrow> invoke h c | _ \<Rightarrow> c)
      else c)"

text \<open>
  What can happen to the running component: the file picker reports a file
  or its removal, the tier toggle or the submit control is clicked, or the
  n-th awaited call settles. A control that is not in the current view
  cannot be used.
\<close>

datatype event =
    FilePicked File
  | FileRemoved
  | ToggleClicked
  | ButtonClicked
  | Settled nat outcome

fun dispatch :: "component \<Rightarrow> event \<Rightarrow> component" where
  "dispatch c (FilePicked f) =
     (if wired ''onFileUpload'' HandleFileUpload (render (cells c))
      then c\<lparr>cells := handleFileUpload f (cells c)\<rparr> else c)"
| "dispatch c FileRemoved =
     (if wired ''onFileRemove'' HandleFileRemove (render (cells c))
      then invoke HandleFileRemove c else c)"
| "dispatch c ToggleClicked =
     (if wired ''onClick'' HandleModelToggle (render (cells c))
      then invoke HandleModelToggle c else c)"
| "dispatch c ButtonClicked =
     (case elements ''BetterButton'' (render (cells c)) of
        [] \<Rightarrow> c
      | b # _ \<Rightarrow> BetterButton_click b c)"
| "dispatch c (Settled n oc) =
     (if n < length (awaiting c)
      then (case handleRun_resume oc (cells c) of
              (s', es) \<Rightarrow>
                c\<lparr>cells := s',
                  awaiting := take n (awaiting c) @ drop (Suc n) (awaiting c),
                  effects := effects c @ es\<rparr>)
      else c)"

definition run :: "event list \<Rightarrow> component" where
  "run evs = foldl dispatch mount evs"

text \<open>
  The invariant of the running component: at most one call is awaited, and
  \<^verbatim>\<open>isLoading\<close> is true exactly while one is.
\<close>

definition one_in_flight :: "component \<Rightarrow> bool" where
  "one_in_flight c = (length (awaiting c) \<le> 1 \<and> isLoading (cells c) = (awaiting c \<noteq> []))"

section \<open>The feature table\<close>

text \<open>
  The strings of the source file are UTF-8; a character outside ASCII is the
  list of its bytes. The check mark is U+2713.
\<close>

definition check_mark :: string where
  "check_mark = [CHR 0xE2, CHR 0x9C, CHR 0x93]"

definition feature_row :: "string \<Rightarrow> string \<Rightarrow> string \<Rightarrow> jsx" where
  "feature_row feature fast high =
     Element ''Table.Row'' []
       [Element ''Table.RowHeaderCell'' [(''className'', PStr ''sub-header'')] [Text feature],
        Element ''Table.Cell'' [] [Text fast],
        Element ''Table.Cell'' [] [Text high]]"

definition ModelTable :: jsx where
  "ModelTable =
     Element ''Flex''
       [(''direction'', PStr ''column''), (''align'', PStr ''center''),
        (''justify'', PStr ''center''), (''width'', PStr ''100%'')]
       [Element ''Table.Root''
          [(''variant'', PStr ''surface''), (''mt'', PStr ''24px''),
           (''style'', PStyle [(''width'', ''100%'')])]
          [Element ''Table.Header'' []
             [Element ''Table.Row'' []
                [Element ''Table.ColumnHeaderCell'' [] [Text ''FEATURE''],
                 Element ''Table.ColumnHeaderCell'' [] [Text ''FAST MODEL''],
                 Element ''Table.ColumnHeaderCell'' [] [Text ''HIGH QUALITY MODEL'']]],
           Element ''Table.Body'' []
             [feature_row ''Table extraction'' check_mark check_mark,
              feature_row ''Image processing'' ''Basic'' ''Advanced'',
              feature_row ''Formula OCR'' ''-'' check_mark,
              feature_row ''Processing speed'' ''Very fast'' ''Moderate'',
              feature_row ''Accuracy'' ''Good'' ''Excellent'']]]"

text \<open>The rows of one part of a table, each as the texts of its cells.\<close>

definition rows_of :: "string \<Rightarrow> jsx \<Rightarrow> string list list" where
  "rows_of part t =
     map (\<lambda>r. map text_of (children r))
       (concat (map (elements ''Table.Row'') (elements part t)))"

text \<open>
  The data rows as the spec words them, with an en dash (U+2013) where the
  fast tier has no formula OCR. Used only to compare with the table of the
  source.
\<close>

definition en_dash :: string where
  "en_dash = [CHR 0xE2, CHR 0x80, CHR 0x93]"

definition spec_data_rows :: "string list list" where
  "spec_data_rows =
     [[''Table extraction'', check_mark, check_mark],
      [''Image processing'', ''Basic'', ''Advanced''],
      [''Formula OCR'', en_dash, check_mark],
      [''Processing speed'', ''Very fast'', ''Moderate''],
      [''Accuracy'', ''Good'', ''Excellent'']]"

section \<open>Properties of the handlers\<close>

lemmas setters = setFile_def setFileName_def setModel_def setIsLoading_def setError_def

lemmas handleRun_defs = handleRun_def handleRun_call_def handleRun_resume_def Let_def

subsection \<open>Tier toggle\<close>

text \<open>
  C7. One call of \<^verbatim>\<open>handleModelToggle\<close> flips the tier to the other value of the
  enumeration, whichever it was, and touches no other cell; two calls give
  back the state they started from.
\<close>

theorem handleModelToggle_involution:
  "handleModelToggle (handleModelToggle s) = s
   \<and> model (handleModelToggle s) = (case model s of Fast \<Rightarrow> HighQuality | HighQuality \<Rightarrow> Fast)
   \<and> model (handleModelToggle s) \<noteq> model s
   \<and> handleModelToggle s = s\<lparr>model := model (handleModelToggle s)\<rparr>"
  by (cases "model s") (simp_all add: handleModelToggle_def setters)

subsection \<open>Choosing and removing a file\<close>

text \<open>
  C8. \<^verbatim>\<open>handleFileUpload\<close> stores the file and sets \<^verbatim>\<open>fileName\<close> to the file's
  name, changing nothing else; that name is what the form passes to the file
  picker for display. For a file named report.pdf the name shown is
  report.pdf. \<^verbatim>\<open>handleFileRemove\<close> afterwards sets the file back to \<^verbatim>\<open>null\<close>
  and the name back to the empty string.
\<close>

theorem handleFileUpload_then_remove:
  "handleFileUpload f s = s\<lparr>file := Some f, fileName := name f\<rparr>
   \<and> fileName (handleFileUpload f s) = name f
   \<and> map (prop_named ''fileName'') (elements ''Upload'' (form_view (handleFileUpload f s)))
       = [Some (PStr (name f))]
   \<and> fileName (handleFileUpload \<lparr>name = ''report.pdf'', contents = c\<rparr> s) = ''report.pdf''
   \<and> handleFileRemove (handleFileUpload f s) = s\<lparr>file := None, fileName := []\<rparr>
   \<and> file (handleFileRemove (handleFileUpload f s)) = None
   \<and> fileName (handleFileRemove (handleFileUpload f s)) = []"
  by (simp add: handleFileUpload_def handleFileRemove_def setters form_view_def prop_named_def)

subsection \<open>Submission\<close>

text \<open>
  C1. With a file selected and a service that resolves the call with a task
  response \<open>r\<close>, \<^verbatim>\<open>handleRun\<close> ends with \<^verbatim>\<open>isLoading\<close> false and has navigated
  exactly once, to \<^verbatim>\<open>/status?taskId=\<close> followed by the task identifier of \<open>r\<close>.
  The effects in order are the payload log, the call, the response log and
  the navigation.
\<close>

theorem handleRun_resolved:
  assumes "file s = Some f"
    and "uploadFileStep \<lparr>UploadForm.file = f, model = model s\<rparr> = Resolved r"
  shows "handleRun uploadFileStep s =
           (s\<lparr>isLoading := False, error := None\<rparr>,
            [Console_log [Str ''Component Payload:'',
               Payload \<lparr>UploadForm.file = f, model = model s\<rparr>],
             UploadFileStep \<lparr>UploadForm.file = f, model = model s\<rparr>,
             Console_log [Str ''Task Response:'', Response r],
             Navigate (''/status?taskId='' @ task_id r)])
         \<and> navigations (snd (handleRun uploadFileStep s)) = [''/status?taskId='' @ task_id r]
         \<and> \<not> isLoading (fst (handleRun uploadFileStep s))"
  using assms by (simp add: handleRun_defs setters navigations_def)

theorem handleRun_resolved_witness:
  "file (handleFileUpload \<lparr>name = ''report.pdf'', contents = ''%PDF''\<rparr> initial)
     = Some \<lparr>name = ''report.pdf'', contents = ''%PDF''\<rparr>
   \<and> navigations (snd (handleRun (\<lambda>p. Resolved \<lparr>task_id = ''abc123''\<rparr>)
         (handleFileUpload \<lparr>name = ''report.pdf'', contents = ''%PDF''\<rparr> initial)))
       = [''/status?taskId=abc123'']
   \<and> \<not> isLoading (fst (handleRun (\<lambda>p. Resolved \<lparr>task_id = ''abc123''\<rparr>)
         (handleFileUpload \<lparr>name = ''report.pdf'', contents = ''%PDF''\<rparr> initial)))"
proof -
  let ?f = "\<lparr>name = ''report.pdf'', contents = ''%PDF''\<rparr>"
  have sel: "file (handleFileUpload ?f initial) = Some ?f"
    by (simp add: handleFileUpload_def setters)
  show ?thesis
    using sel handleRun_resolved [OF sel, of "\<lambda>p. Resolved \<lparr>task_id = ''abc123''\<rparr>"
        "\<lparr>task_id = ''abc123''\<rparr>"]
    by (simp add: navigations_def)
qed

text \<open>
  C2. With a file selected and a service whose call rejects, whatever value
  it rejects with, \<^verbatim>\<open>handleRun\<close> ends with \<^verbatim>\<open>error\<close> set to the fixed message
  "Failed to upload file. Please try again later.", with \<^verbatim>\<open>isLoading\<close> false,
  and without any navigation; the thrown value goes to the console only.
\<close>

theorem handleRun_rejected:
  assumes "file s = Some f"
    and "uploadFileStep \<lparr>UploadForm.file = f, model = model s\<rparr> = Rejected e"
  shows "handleRun uploadFileStep s =
           (s\<lparr>isLoading := False,
              error := Some ''Failed to upload file. Please try again later.''\<rparr>,
            [Console_log [Str ''Component Payload:'',
               Payload \<lparr>UploadForm.file = f, model = model s\<rparr>],
             UploadFileStep \<lparr>UploadForm.file = f, model = model s\<rparr>,
             Console_error [Str ''Error uploading file:'', Thrown e]])
         \<and> error (fst (handleRun uploadFileStep s))
             = Some ''Failed to upload file. Please try again later.''
         \<and> \<not> isLoading (fst (handleRun uploadFileStep s))
         \<and> navigations (snd (handleRun uploadFileStep s)) = []"
  using assms by (simp add: handleRun_defs setters navigations_def)

theorem handleRun_rejected_witness:
  "file (handleFileUpload \<lparr>name = ''report.pdf'', contents = ''%PDF''\<rparr> initial)
     = Some \<lparr>name = ''report.pdf'', contents = ''%PDF''\<rparr>
   \<and> error (fst (handleRun (\<lambda>p. Rejected ''503 Service Unavailable'')
         (handleFileUpload \<lparr>name = ''report.pdf'', contents = ''%PDF''\<rparr> initial)))
       = Some ''Failed to upload file. Please try again later.''
   \<and> navigations (snd (handleRun (\<lambda>p. Rejected ''503 Service Unavailable'')
         (handleFileUpload \<lparr>name = ''report.pdf'', contents = ''%PDF''\<rparr> initial))) = []"
proof -
  let ?f = "\<lparr>name = ''report.pdf'', contents = ''%PDF''\<rparr>"
  have sel: "file (handleFileUpload ?f initial) = Some ?f"
    by (simp add: handleFileUpload_def setters)
  show ?thesis
    using sel handleRun_rejected [OF sel, of "\<lambda>p. Rejected ''503 Service Unavailable''"
        "''503 Service Unavailable''"]
    by (simp add: navigations_def)
qed

text \<open>
  C3. With no file selected, \<^verbatim>\<open>handleRun\<close> returns at its guard: every cell of
  the state is as before (so \<^verbatim>\<open>isLoading\<close> and \<^verbatim>\<open>error\<close> keep their values, false
  and \<^verbatim>\<open>null\<close> when they were so), the upload service is not called, nothing is
  navigated to, and the one effect is the console line "No file uploaded".
\<close>

theorem handleRun_no_file:
  assumes "file s = None"
  shows "handleRun uploadFileStep s = (s, [Console_error [Str ''No file uploaded'']])
         \<and> handleRun_call s = (s, [Console_error [Str ''No file uploaded'']], None)
         \<and> uploads (snd (handleRun uploadFileStep s)) = []
         \<and> navigations (snd (handleRun uploadFileStep s)) = []"
  using assms by (simp add: handleRun_defs uploads_def navigations_def)

theorem handleRun_no_file_witness:
  "file initial = None
   \<and> handleRun (\<lambda>p. Resolved \<lparr>task_id = ''abc123''\<rparr>) initial
       = (initial, [Console_error [Str ''No file uploaded'']])
   \<and> \<not> isLoading (fst (handleRun (\<lambda>p. Resolved \<lparr>task_id = ''abc123''\<rparr>) initial))
   \<and> error (fst (handleRun (\<lambda>p. Resolved \<lparr>task_id = ''abc123''\<rparr>) initial)) = None"
proof -
  have nofile: "file initial = None"
    by (simp add: initial_def)
  show ?thesis
    using nofile handleRun_no_file [OF nofile, of "\<lambda>p. Resolved \<lparr>task_id = ''abc123''\<rparr>"]
    by (simp add: initial_def)
qed

text \<open>
  C4. With a file selected, the part of \<^verbatim>\<open>handleRun\<close> before the \<^verbatim>\<open>await\<close> sets
  \<^verbatim>\<open>isLoading\<close> to true and \<^verbatim>\<open>error\<close> to \<^verbatim>\<open>null\<close> and starts the call. The part
  after the \<^verbatim>\<open>await\<close> leaves \<^verbatim>\<open>isLoading\<close> false whether the call resolved or
  rejected, from whatever state \<open>s'\<close> the cells are in by then; so does the
  handler run in one piece.
\<close>

theorem handleRun_isLoading:
  assumes "file s = Some f"
  shows "fst (handleRun_call s) = s\<lparr>isLoading := True, error := None\<rparr>
         \<and> isLoading (fst (handleRun_call s))
         \<and> error (fst (handleRun_call s)) = None
         \<and> snd (snd (handleRun_call s)) = Some \<lparr>UploadForm.file = f, model = model s\<rparr>
         \<and> \<not> isLoading (fst (handleRun_resume (Resolved r) s'))
         \<and> \<not> isLoading (fst (handleRun_resume (Rejected e) s'))
         \<and> \<not> isLoading (fst (handleRun uploadFileStep s))"
  using assms
  by (cases "uploadFileStep \<lparr>UploadForm.file = f, model = model s\<rparr>")
    (simp_all add: handleRun_defs setters)

theorem handleRun_isLoading_witness:
  "file (handleFileUpload \<lparr>name = ''report.pdf'', contents = ''%PDF''\<rparr> initial)
     = Some \<lparr>name = ''report.pdf'', contents = ''%PDF''\<rparr>
   \<and> isLoading (fst (handleRun_call
         (handleFileUpload \<lparr>name = ''report.pdf'', contents = ''%PDF''\<rparr> initial)))
   \<and> \<not> isLoading (fst (handleRun_resume (Resolved \<lparr>task_id = ''abc123''\<rparr>)
         (fst (handleRun_call
           (handleFileUpload \<lparr>name = ''report.pdf'', contents = ''%PDF''\<rparr> initial)))))
   \<and> \<not> isLoading (fst (handleRun_resume (Rejected ''timeout'')
         (fst (handleRun_call
           (handleFileUpload \<lparr>name = ''report.pdf'', contents = ''%PDF''\<rparr> initial)))))"
proof -
  let ?f = "\<lparr>name = ''report.pdf'', contents = ''%PDF''\<rparr>"
  let ?s = "handleFileUpload ?f initial"
  have sel: "file ?s = Some ?f"
    by (simp add: handleFileUpload_def setters)
  show ?thesis
    using sel handleRun_isLoading [OF sel, of "\<lparr>task_id = ''abc123''\<rparr>"
        "fst (handleRun_call ?s)" "''timeout''"]
    by (simp add: handleRun_resume_def setters)
qed

text \<open>
  C10. Neither part of \<^verbatim>\<open>handleRun\<close>, nor the handler as a whole, changes the
  cells \<^verbatim>\<open>file\<close>, \<^verbatim>\<open>fileName\<close> and \<^verbatim>\<open>model\<close>: not at the guard, not when the call
  resolves, not when it rejects.
\<close>

theorem handleRun_frame:
  "file (fst (handleRun_call s)) = file s
   \<and> fileName (fst (handleRun_call s)) = fileName s
   \<and> model (fst (handleRun_call s)) = model s
   \<and> file (fst (handleRun_resume oc s)) = file s
   \<and> fileName (fst (handleRun_resume oc s)) = fileName s
   \<and> model (fst (handleRun_resume oc s)) = model s
   \<and> file (fst (handleRun uploadFileStep s)) = file s
   \<and> fileName (fst (handleRun uploadFileStep s)) = fileName s
   \<and> model (fst (handleRun uploadFileStep s)) = model s"
  by (auto simp: handleRun_defs setters split: option.splits outcome.splits prod.splits)

section \<open>Properties of the view\<close>

lemma elements_BetterButton_form_view:
  "elements ''BetterButton'' (form_view s) =
     [Element ''BetterButton''
        [(''padding'', PStr ''16px 64px''),
         (''onClick'', PHandler HandleRun),
         (''active'', PBool (file s \<noteq> None \<and> \<not> isLoading s))]
        [Element ''Text'' [(''size'', PStr ''4''), (''weight'', PStr ''medium'')]
           [Text (if isLoading s then ''Uploading...'' else ''Run'')]]]"
  by (simp add: form_view_def)

lemma elements_BetterButton_error_view:
  "elements ''BetterButton'' (error_view msg) = []"
  by (simp add: error_view_def)

text \<open>
  C6. When \<^verbatim>\<open>error\<close> is \<^verbatim>\<open>null\<close> (or the empty string, which the test treats
  alike), the view holds exactly one \<^verbatim>\<open>BetterButton\<close>. Its \<^verbatim>\<open>active\<close> prop is
  true if and only if a file is selected and \<^verbatim>\<open>isLoading\<close> is false, and its
  text is "Uploading..." when \<^verbatim>\<open>isLoading\<close> is true and "Run" otherwise.
\<close>

theorem render_submit_control:
  assumes "error s = None \<or> error s = Some []"
  shows "map (\<lambda>b. (prop_named ''active'' b, text_of b)) (elements ''BetterButton'' (render s))
         = [(Some (PBool (file s \<noteq> None \<and> \<not> isLoading s)),
             if isLoading s then ''Uploading...'' else ''Run'')]"
  using assms
  by (auto simp: render_def elements_BetterButton_form_view prop_named_def)

theorem render_submit_control_witness:
  "(error (handleFileUpload \<lparr>name = ''report.pdf'', contents = ''%PDF''\<rparr> initial) = None
      \<or> error (handleFileUpload \<lparr>name = ''report.pdf'', contents = ''%PDF''\<rparr> initial) = Some [])
   \<and> map (\<lambda>b. (prop_named ''active'' b, text_of b))
        (elements ''BetterButton''
          (render (handleFileUpload \<lparr>name = ''report.pdf'', contents = ''%PDF''\<rparr> initial)))
       = [(Some (PBool True), ''Run'')]
   \<and> map (\<lambda>b. (prop_named ''active'' b, text_of b))
        (elements ''BetterButton''
          (render (fst (handleRun_call
            (handleFileUpload \<lparr>name = ''report.pdf'', contents = ''%PDF''\<rparr> initial)))))
       = [(Some (PBool False), ''Uploading...'')]
   \<and> map (\<lambda>b. (prop_named ''active'' b, text_of b)) (elements ''BetterButton'' (render initial))
       = [(Some (PBool False), ''Run'')]"
proof -
  let ?s = "handleFileUpload \<lparr>name = ''report.pdf'', contents = ''%PDF''\<rparr> initial"
  have a: "error ?s = None \<or> error ?s = Some []"
    by (simp add: handleFileUpload_def setters initial_def)
  have b: "error (fst (handleRun_call ?s)) = None \<or> error (fst (handleRun_call ?s)) = Some []"
    by (simp add: handleRun_call_def Let_def handleFileUpload_def setters initial_def)
  have c: "error initial = None \<or> error initial = Some []"
    by (simp add: initial_def)
  show ?thesis
    using a render_submit_control [OF a] render_submit_control [OF b] render_submit_control [OF c]
    by (simp add: handleRun_call_def Let_def handleFileUpload_def setters initial_def)
qed

section \<open>The running component\<close>

lemma dispatch_ButtonClicked_loading:
  "isLoading (cells c) \<Longrightarrow> dispatch c ButtonClicked = c"
  by (simp add: render_def elements_BetterButton_form_view elements_BetterButton_error_view
      BetterButton_click_def prop_named_def split: option.splits)

lemma one_in_flight_ButtonClicked:
  "one_in_flight c \<Longrightarrow> one_in_flight (dispatch c ButtonClicked)"
  by (auto simp: one_in_flight_def render_def elements_BetterButton_form_view
      elements_BetterButton_error_view BetterButton_click_def prop_named_def
      handleRun_call_def setters Let_def split: option.splits)

lemma one_in_flight_Settled:
  "one_in_flight c \<Longrightarrow> one_in_flight (dispatch c (Settled n oc))"
  by (auto simp: one_in_flight_def handleRun_resume_def setters split: outcome.splits)

lemma one_in_flight_picker_toggle:
  "one_in_flight c \<Longrightarrow>
     one_in_flight (dispatch c (FilePicked f)) \<and> one_in_flight (dispatch c FileRemoved)
     \<and> one_in_flight (dispatch c ToggleClicked)"
  by (simp add: one_in_flight_def handleFileUpload_def handleFileRemove_def
      handleModelToggle_def setters)

lemma one_in_flight_dispatch:
  "one_in_flight c \<Longrightarrow> one_in_flight (dispatch c ev)"
  by (cases ev)
    (simp_all only: one_in_flight_ButtonClicked one_in_flight_Settled one_in_flight_picker_toggle)

lemma one_in_flight_foldl:
  "one_in_flight c \<Longrightarrow> one_in_flight (foldl dispatch c evs)"
  by (induction evs arbitrary: c) (simp_all add: one_in_flight_dispatch)

lemma one_in_flight_mount: "one_in_flight mount"
  by (simp add: one_in_flight_def mount_def initial_def)

lemma one_in_flight_run: "one_in_flight (run evs)"
  unfolding run_def by (rule one_in_flight_foldl [OF one_in_flight_mount])

text \<open>
  C5. After any sequence of events on a freshly mounted component, at most
  one call of the upload service is awaited, and one is awaited exactly while
  \<^verbatim>\<open>isLoading\<close> is true. While \<^verbatim>\<open>isLoading\<close> is true a click on the submit control
  changes nothing: no second call starts before the first has settled. This
  rests on the submit control ignoring clicks while its \<^verbatim>\<open>active\<close> prop is
  false; \<^verbatim>\<open>handleRun\<close> itself does not look at \<^verbatim>\<open>isLoading\<close>.
\<close>

theorem no_overlapping_submissions:
  "length (awaiting (run evs)) \<le> 1
   \<and> isLoading (cells (run evs)) = (awaiting (run evs) \<noteq> [])
   \<and> (isLoading (cells (run evs)) \<longrightarrow> dispatch (run evs) ButtonClicked = run evs)"
  using one_in_flight_run [of evs] dispatch_ButtonClicked_loading [of "run evs"]
  by (simp add: one_in_flight_def)

theorem no_overlapping_submissions_witness:
  "isLoading (cells (run [FilePicked \<lparr>name = ''report.pdf'', contents = ''%PDF''\<rparr>, ButtonClicked]))
   \<and> length (awaiting (run [FilePicked \<lparr>name = ''report.pdf'', contents = ''%PDF''\<rparr>, ButtonClicked])) = 1
   \<and> dispatch (run [FilePicked \<lparr>name = ''report.pdf'', contents = ''%PDF''\<rparr>, ButtonClicked])
        ButtonClicked
       = run [FilePicked \<lparr>name = ''report.pdf'', contents = ''%PDF''\<rparr>, ButtonClicked]"
proof -
  let ?evs = "[FilePicked \<lparr>name = ''report.pdf'', contents = ''%PDF''\<rparr>, ButtonClicked]"
  have loading: "isLoading (cells (run ?evs))"
    by (simp add: run_def mount_def initial_def render_def form_view_def wired_def
        handleFileUpload_def BetterButton_click_def prop_named_def handleRun_call_def Let_def
        setters)
  have one: "length (awaiting (run ?evs)) = 1"
    by (simp add: run_def mount_def initial_def render_def form_view_def wired_def
        handleFileUpload_def BetterButton_click_def prop_named_def handleRun_call_def Let_def
        setters)
  show ?thesis
    using loading one no_overlapping_submissions [of ?evs] by blast
qed

section \<open>Properties of the feature table\<close>

text \<open>
  C9, as the source has it. \<^verbatim>\<open>ModelTable\<close> takes no argument and is one fixed
  tree. Its header is one row of three columns, FEATURE, FAST MODEL and HIGH
  QUALITY MODEL, and its body is exactly five rows: Table extraction with a
  check mark for both tiers, Image processing with Basic and Advanced,
  Formula OCR with the ASCII hyphen-minus "-" for the fast tier and a check
  mark for the high-quality tier, Processing speed with Very fast and
  Moderate, Accuracy with Good and Excellent.
\<close>

theorem ModelTable_rows:
  "rows_of ''Table.Header'' ModelTable = [[''FEATURE'', ''FAST MODEL'', ''HIGH QUALITY MODEL'']]
   \<and> rows_of ''Table.Body'' ModelTable =
       [[''Table extraction'', check_mark, check_mark],
        [''Image processing'', ''Basic'', ''Advanced''],
        [''Formula OCR'', ''-'', check_mark],
        [''Processing speed'', ''Very fast'', ''Moderate''],
        [''Accuracy'', ''Good'', ''Excellent'']]
   \<and> length (rows_of ''Table.Body'' ModelTable) = 5
   \<and> elements ''Table.Row'' ModelTable
       = concat (map (elements ''Table.Row'') (elements ''Table.Header'' ModelTable))
         @ concat (map (elements ''Table.Row'') (elements ''Table.Body'' ModelTable))"
  by (simp add: rows_of_def ModelTable_def feature_row_def)

text \<open>
  C9, as the spec words it, does not hold of the source: in the row Formula
  OCR the source has the one-byte hyphen-minus where the spec's rows have an
  en dash, so the two bodies differ in their third row.
\<close>

theorem ModelTable_rows_counterexample:
  "rows_of ''Table.Body'' ModelTable \<noteq> spec_data_rows
   \<and> rows_of ''Table.Body'' ModelTable ! 2 = [''Formula OCR'', ''-'', check_mark]
   \<and> spec_data_rows ! 2 = [''Formula OCR'', en_dash, check_mark]
   \<and> ''-'' \<noteq> en_dash"
  by (simp add: rows_of_def ModelTable_def feature_row_def spec_data_rows_def en_dash_def)

end
